theory Spec2Isabelle
  imports Main
begin

section \<open>Python values\<close>

text \<open>
  A Python \<open>str\<close> is a sequence of Unicode code points and \<open>len\<close> counts code points,
  so a string is a list of code points here. \<open>str\<close> turns an ASCII literal into one.
\<close>

type_synonym pystr = "nat list"

definition str :: "string \<Rightarrow> pystr" where
  "str s = map of_char s"

text \<open>A cell of a row: the handler writes strings, the integer income and \<open>None\<close>.\<close>

datatype pyval = PStr pystr | PInt int | PNone

text \<open>JSON, for response bodies.\<close>

datatype json = JNull | JBool bool | JInt int | JStr pystr
  | JArr "json list" | JObj "(pystr \<times> json) list"

subsection \<open>Library functions the source calls\<close>

text \<open>
  The source calls into the interpreter and into third-party packages. What is fixed and
  small is written out; the rest is a parameter of the model, so that every theorem holds
  for each behaviour of these functions:
  \<^item> \<open>unicode_isdigit\<close>, \<open>unicode_upper\<close>: the Unicode tables behind \<open>str.isdigit\<close> and
    \<open>str.upper\<close> for code points from 256 on (below 256 the tables are written out);
  \<^item> \<open>email_validator\<close>: what \<open>EmailStr\<close> makes of a string, \<open>None\<close> when it refuses it,
    the normalised address otherwise;
  \<^item> \<open>strptime_Ymd\<close>: whether \<open>datetime.strptime(v, "%Y-%m-%d")\<close> returns;
  \<^item> \<open>fromisoformat\<close>: whether \<open>datetime.fromisoformat(v)\<close> returns.
\<close>

record pylib =
  unicode_isdigit :: "nat \<Rightarrow> bool"
  unicode_upper :: "nat \<Rightarrow> nat list"
  email_validator :: "pystr \<Rightarrow> pystr option"
  strptime_Ymd :: "pystr \<Rightarrow> bool"
  fromisoformat :: "pystr \<Rightarrow> bool"

text \<open>
  \<open>str.isdigit\<close>: true when the string is not empty and every character has
  Numeric\_Type Digit or Decimal. Below 256 these are \<open>0\<close>..\<open>9\<close> and the superscripts
  U+00B2, U+00B3 and U+00B9.
\<close>

definition isdigit_cp :: "pylib \<Rightarrow> nat \<Rightarrow> bool" where
  "isdigit_cp L c =
     (if c < 256 then (48 \<le> c \<and> c \<le> 57) \<or> c = 178 \<or> c = 179 \<or> c = 185
      else unicode_isdigit L c)"

definition isdigit :: "pylib \<Rightarrow> pystr \<Rightarrow> bool" where
  "isdigit L v = (v \<noteq> [] \<and> list_all (isdigit_cp L) v)"

text \<open>
  \<open>str.upper\<close> maps each code point on its own, to one or more code points. Below 256:
  \<open>a\<close>..\<open>z\<close> and U+00E0..U+00FE (but U+00F7) move down by 32, U+00B5 becomes U+039C,
  U+00DF becomes \<open>SS\<close>, U+00FF becomes U+0178, everything else stays.
\<close>

definition upper_cp :: "pylib \<Rightarrow> nat \<Rightarrow> nat list" where
  "upper_cp L c =
     (if 97 \<le> c \<and> c \<le> 122 then [c - 32]
      else if c < 128 then [c]
      else if c = 181 then [924]
      else if c = 223 then [83, 83]
      else if 224 \<le> c \<and> c \<le> 254 \<and> c \<noteq> 247 then [c - 32]
      else if c = 255 then [376]
      else if c < 256 then [c]
      else unicode_upper L c)"

definition upper :: "pylib \<Rightarrow> pystr \<Rightarrow> pystr" where
  "upper L v = concat (map (upper_cp L) v)"

text \<open>The decimal digits \<open>0\<close>..\<open>9\<close> and the letters \<open>A\<close>..\<open>Z\<close>, as a regex class has them.\<close>

definition is_09 :: "nat \<Rightarrow> bool" where
  "is_09 c = (48 \<le> c \<and> c \<le> 57)"

definition is_AZ :: "nat \<Rightarrow> bool" where
  "is_AZ c = (65 \<le> c \<and> c \<le> 90)"

section \<open>Configuration\<close>

text \<open>\<open>API_KEY_MAP\<close>: partner-specific keys and their partner\_id.\<close>

definition API_KEY_MAP :: "pystr \<rightharpoonup> pystr" where
  "API_KEY_MAP = map_of [(str ''YBJD1FRUY45THJ'', str ''CM'')]"

definition HEADER_ROW :: "pystr list" where
  "HEADER_ROW =
     [str ''timestamp'', str ''phone'', str ''email'', str ''first name'', str ''last name'',
      str ''dob'', str ''pan'', str ''employment_type'', str ''pincode'', str ''income'',
      str ''consent_datetime'', str ''ip_address'', str ''partner_id'']"

section \<open>The schema and its validation\<close>

text \<open>
  \<open>PAN_REGEX = re.compile(r"^[A-Z]{5}[0-9]{4}[A-Z]$")\<close>, used through \<open>match\<close>:
  the ten characters from the start of the string, and then \<open>$\<close>, which in Python holds
  at the end of the string and also just before a newline that ends the string.
\<close>

definition PAN_REGEX_match :: "pystr \<Rightarrow> bool" where
  "PAN_REGEX_match v =
     (10 \<le> length v
      \<and> list_all is_AZ (take 5 v)
      \<and> list_all is_09 (take 4 (drop 5 v))
      \<and> list_all is_AZ (take 1 (drop 9 v))
      \<and> (drop 10 v = [] \<or> drop 10 v = [10]))"

text \<open>The validated model, one field for each attribute of \<open>class Lead\<close>.\<close>

record Lead =
  phone :: pystr
  email :: pystr
  first_name :: pystr
  last_name :: pystr
  dob :: pystr
  pan :: pystr
  employment_type :: pystr
  pincode :: pystr
  income :: int
  consent_datetime :: "pystr option"
  ip_address :: "pystr option"
  partner_id :: pystr

text \<open>
  The request body as it reaches the schema: a JSON object, read by its keys (the aliases
  \<open>first name\<close> and \<open>last name\<close> for two of them). A key that is absent is \<open>None\<close>; for
  the two optional fields \<open>None\<close> also stands for an explicit \<open>null\<close>. Each value that is
  present has the JSON type of its field, which leaves the framework's coercion of other
  JSON types out of the model.
\<close>

record payload =
  raw_phone :: "pystr option"
  raw_email :: "pystr option"
  raw_first_name :: "pystr option"
  raw_last_name :: "pystr option"
  raw_dob :: "pystr option"
  raw_pan :: "pystr option"
  raw_employment_type :: "pystr option"
  raw_pincode :: "pystr option"
  raw_income :: "int option"
  raw_consent_datetime :: "pystr option"
  raw_ip_address :: "pystr option"
  raw_partner_id :: "pystr option"

text \<open>What can be wrong with one field.\<close>

datatype verr =
    Missing
  | TooShort nat
  | TooLong nat
  | NotAnEmail
  | ValueError pystr

text \<open>A required field (\<open>...\<close> as default) that is absent is an error of that field.\<close>

definition required :: "'a option \<Rightarrow> verr + 'a" where
  "required x = (case x of None \<Rightarrow> Inl Missing | Some v \<Rightarrow> Inr v)"

text \<open>\<open>Field(..., min_length=lo, max_length=hi)\<close> on a \<open>str\<close>.\<close>

definition constr_length :: "nat \<Rightarrow> nat \<Rightarrow> pystr \<Rightarrow> verr + pystr" where
  "constr_length lo hi v =
     (if length v < lo then Inl (TooShort lo)
      else if hi < length v then Inl (TooLong hi)
      else Inr v)"

text \<open>The validators of one field run in a chain that stops at the first error.\<close>

definition and_then :: "verr + 'a \<Rightarrow> ('a \<Rightarrow> verr + 'b) \<Rightarrow> verr + 'b" where
  "and_then r f = (case r of Inl e \<Rightarrow> Inl e | Inr v \<Rightarrow> f v)"

subsection \<open>The field-level validators of the source\<close>

definition phone_is_digits :: "pylib \<Rightarrow> pystr \<Rightarrow> verr + pystr" where
  "phone_is_digits L v =
     (if \<not> isdigit L v then Inl (ValueError (str ''Phone number must be exactly 10 digits.''))
      else Inr v)"

definition dob_format :: "pylib \<Rightarrow> pystr \<Rightarrow> verr + pystr" where
  "dob_format L v =
     (if strptime_Ymd L v then Inr v
      else Inl (ValueError (str ''dob must be YYYY-MM-DD.'')))"

definition pan_format :: "pylib \<Rightarrow> pystr \<Rightarrow> verr + pystr" where
  "pan_format L v =
     (if \<not> PAN_REGEX_match (upper L v) then Inl (ValueError (str ''Invalid PAN format.''))
      else Inr (upper L v))"

definition emp_enum :: "pystr \<Rightarrow> verr + pystr" where
  "emp_enum v =
     (if v \<noteq> str ''salaried'' \<and> v \<noteq> str ''self-employed''
      then Inl (ValueError (str ''employment_type must be salaried or self-employed.''))
      else Inr v)"

text \<open>
  \<open>iso_dt\<close> runs also when the field is absent (\<open>always=True\<close>). \<open>if v:\<close> is false for
  \<open>None\<close> and for the empty string.
\<close>

definition iso_dt :: "pylib \<Rightarrow> pystr option \<Rightarrow> verr + pystr option" where
  "iso_dt L v =
     (case v of
        None \<Rightarrow> Inr v
      | Some s \<Rightarrow>
          if s \<noteq> [] then
            (if fromisoformat L s then Inr v
             else Inl (ValueError (str ''consent_datetime must be ISO-8601.'')))
          else Inr v)"

subsection \<open>One field at a time\<close>

definition phone_field :: "pylib \<Rightarrow> pystr option \<Rightarrow> verr + pystr" where
  "phone_field L x = and_then (and_then (required x) (constr_length 10 10)) (phone_is_digits L)"

definition email_field :: "pylib \<Rightarrow> pystr option \<Rightarrow> verr + pystr" where
  "email_field L x =
     and_then (required x)
       (\<lambda>v. case email_validator L v of None \<Rightarrow> Inl NotAnEmail | Some e \<Rightarrow> Inr e)"

definition dob_field :: "pylib \<Rightarrow> pystr option \<Rightarrow> verr + pystr" where
  "dob_field L x = and_then (required x) (dob_format L)"

definition pan_field :: "pylib \<Rightarrow> pystr option \<Rightarrow> verr + pystr" where
  "pan_field L x = and_then (required x) (pan_format L)"

definition employment_type_field :: "pystr option \<Rightarrow> verr + pystr" where
  "employment_type_field x = and_then (required x) emp_enum"

definition pincode_field :: "pystr option \<Rightarrow> verr + pystr" where
  "pincode_field x = and_then (required x) (constr_length 6 6)"

definition consent_datetime_field :: "pylib \<Rightarrow> pystr option \<Rightarrow> verr + pystr option" where
  "consent_datetime_field L x = iso_dt L x"

text \<open>The errors of one field, under its name in the body.\<close>

definition err_at :: "pystr \<Rightarrow> verr + 'a \<Rightarrow> (pystr \<times> verr) list" where
  "err_at loc r = (case r of Inl e \<Rightarrow> [(loc, e)] | Inr v \<Rightarrow> [])"

text \<open>
  Every field is validated, the errors of all fields are collected in the order of the
  class, and a \<open>Lead\<close> exists only when there is none.
\<close>

definition field_errors :: "pylib \<Rightarrow> payload \<Rightarrow> (pystr \<times> verr) list" where
  "field_errors L p =
     err_at (str ''phone'') (phone_field L (raw_phone p))
     @ err_at (str ''email'') (email_field L (raw_email p))
     @ err_at (str ''first name'') (required (raw_first_name p))
     @ err_at (str ''last name'') (required (raw_last_name p))
     @ err_at (str ''dob'') (dob_field L (raw_dob p))
     @ err_at (str ''pan'') (pan_field L (raw_pan p))
     @ err_at (str ''employment_type'') (employment_type_field (raw_employment_type p))
     @ err_at (str ''pincode'') (pincode_field (raw_pincode p))
     @ err_at (str ''income'') (required (raw_income p))
     @ err_at (str ''consent_datetime'') (consent_datetime_field L (raw_consent_datetime p))
     @ err_at (str ''partner_id'') (required (raw_partner_id p))"

definition validate_lead :: "pylib \<Rightarrow> payload \<Rightarrow> (pystr \<times> verr) list + Lead" where
  "validate_lead L p =
     (if field_errors L p \<noteq> [] then Inl (field_errors L p)
      else Inr \<lparr>
        phone = projr (phone_field L (raw_phone p)),
        email = projr (email_field L (raw_email p)),
        first_name = projr (required (raw_first_name p)),
        last_name = projr (required (raw_last_name p)),
        dob = projr (dob_field L (raw_dob p)),
        pan = projr (pan_field L (raw_pan p)),
        employment_type = projr (employment_type_field (raw_employment_type p)),
        pincode = projr (pincode_field (raw_pincode p)),
        income = projr (required (raw_income p)),
        consent_datetime = projr (consent_datetime_field L (raw_consent_datetime p)),
        ip_address = raw_ip_address p,
        partner_id = projr (required (raw_partner_id p)) \<rparr>)"

section \<open>The route\<close>

text \<open>The worksheet, as the rows appended to it so far.\<close>

type_synonym worksheet = "pyval list list"

definition append_row :: "worksheet \<Rightarrow> pyval list \<Rightarrow> worksheet" where
  "append_row ws row = ws @ [row]"

text \<open>
  \<open>body.dict(by_alias=True)\<close>: every field of the model under its alias, in the order of
  the class; a field that holds \<open>None\<close> is in the dictionary with the value \<open>None\<close>.
\<close>

definition opt_val :: "pystr option \<Rightarrow> pyval" where
  "opt_val x = (case x of None \<Rightarrow> PNone | Some s \<Rightarrow> PStr s)"

definition dict_by_alias :: "Lead \<Rightarrow> (pystr \<times> pyval) list" where
  "dict_by_alias body =
     [(str ''phone'', PStr (phone body)),
      (str ''email'', PStr (email body)),
      (str ''first name'', PStr (first_name body)),
      (str ''last name'', PStr (last_name body)),
      (str ''dob'', PStr (dob body)),
      (str ''pan'', PStr (pan body)),
      (str ''employment_type'', PStr (employment_type body)),
      (str ''pincode'', PStr (pincode body)),
      (str ''income'', PInt (income body)),
      (str ''consent_datetime'', opt_val (consent_datetime body)),
      (str ''ip_address'', opt_val (ip_address body)),
      (str ''partner_id'', PStr (partner_id body))]"

text \<open>\<open>d.get(k, default)\<close>: the default only when the key is not in the dictionary.\<close>

definition dict_get :: "(pystr \<times> pyval) list \<Rightarrow> pystr \<Rightarrow> pyval \<Rightarrow> pyval" where
  "dict_get d k dflt = (case map_of d k of None \<Rightarrow> dflt | Some v \<Rightarrow> v)"

record HTTPException =
  status_code :: nat
  detail :: json

definition unauthorised_detail :: json where
  "unauthorised_detail =
     JObj [(str ''success'', JBool False),
           (str ''message'', JStr (str ''Unauthorised Access! API Key is required!''))]"

definition mismatch_detail :: json where
  "mismatch_detail =
     JObj [(str ''success'', JBool False),
           (str ''message'', JStr (str ''Data Validation Failed!'')),
           (str ''error'',
              JObj [(str ''partner_id'',
                     JStr (str ''partner_id does not match supplied API key''))])]"

definition created :: json where
  "created =
     JObj [(str ''success'', JBool True),
           (str ''message'', JStr (str ''Lead created successfully''))]"

text \<open>
  \<open>submit_lead\<close>, with the worksheet passed through. \<open>now\<close> is what
  \<open>datetime.utcnow().isoformat()\<close> gives when the row is built.
\<close>

definition build_row :: "pystr \<Rightarrow> Lead \<Rightarrow> pyval list" where
  "build_row now body =
     PStr now # map (\<lambda>h. dict_get (dict_by_alias body) h (PStr [])) (tl HEADER_ROW)"

text \<open>\<open>x_api_key in API_KEY_MAP\<close>; \<open>None\<close> is not a key of the dictionary.\<close>

definition in_API_KEY_MAP :: "pystr option \<Rightarrow> bool" where
  "in_API_KEY_MAP x_api_key =
     (case x_api_key of
        None \<Rightarrow> False
      | Some k \<Rightarrow> (case API_KEY_MAP k of None \<Rightarrow> False | Some partner \<Rightarrow> True))"

definition submit_lead ::
  "pystr \<Rightarrow> Lead \<Rightarrow> pystr option \<Rightarrow> worksheet \<Rightarrow> (HTTPException + json) \<times> worksheet" where
  "submit_lead now body x_api_key ws =
     (if \<not> in_API_KEY_MAP x_api_key
      then (Inl \<lparr>status_code = 401, detail = unauthorised_detail\<rparr>, ws)
      else if the (API_KEY_MAP (the x_api_key)) \<noteq> partner_id body
      then (Inl \<lparr>status_code = 400, detail = mismatch_detail\<rparr>, ws)
      else (Inr created, append_row ws (build_row now body)))"

subsection \<open>The framework around the handler\<close>

record request =
  req_headers :: "(pystr \<times> pystr) list"
  req_body :: payload

text \<open>
  The body of a response: JSON, or for a body that fails the schema the framework's list
  of errors, one entry for each failing field with the field's name as its location.
\<close>

datatype content = Json json | ValidationErrors "(pystr \<times> verr) list"

record response =
  status :: nat
  content :: content

text \<open>
  The headers of a request, looked up by name: the names of HTTP headers compare without
  regard to the case of \<open>A\<close>..\<open>Z\<close>, and of several headers with one name the first is
  taken.
\<close>

definition ascii_lower :: "pystr \<Rightarrow> pystr" where
  "ascii_lower v = map (\<lambda>c. if 65 \<le> c \<and> c \<le> 90 then c + 32 else c) v"

definition header_get :: "(pystr \<times> pystr) list \<Rightarrow> pystr \<Rightarrow> pystr option" where
  "header_get hs name = map_of (map (\<lambda>(n, v). (ascii_lower n, v)) hs) (ascii_lower name)"

text \<open>
  The framework reads a \<open>Header\<close> parameter from the header that has the parameter's
  name, with the underscores of the name turned into hyphens unless the parameter is
  declared with \<open>convert_underscores=False\<close>.
\<close>

definition header_alias :: "bool \<Rightarrow> pystr \<Rightarrow> pystr" where
  "header_alias convert_underscores name =
     (if convert_underscores then map (\<lambda>c. if c = 95 then 45 else c) name else name)"

text \<open>\<open>x_api_key: str | None = Header(None, convert_underscores=False)\<close>\<close>

definition x_api_key_param :: "request \<Rightarrow> pystr option" where
  "x_api_key_param req = header_get (req_headers req) (header_alias False (str ''x_api_key''))"

text \<open>
  The source installs no exception handlers, so the framework's own answer: to a raised
  \<open>HTTPException\<close> its status code and the JSON body \<open>{"detail": exc.detail}\<close>, and to a
  body that fails the schema a 422 with the errors.
\<close>

definition http_exception_handler :: "HTTPException \<Rightarrow> response" where
  "http_exception_handler e =
     \<lparr>status = status_code e, content = Json (JObj [(str ''detail'', detail e)])\<rparr>"

definition request_validation_handler :: "(pystr \<times> verr) list \<Rightarrow> response" where
  "request_validation_handler errs = \<lparr>status = 422, content = ValidationErrors errs\<rparr>"

text \<open>
  \<open>POST /vendor/submit-lead\<close>: the framework validates the body against the schema and
  calls \<open>submit_lead\<close> only with a valid \<open>Lead\<close>; what the handler returns is the body of
  a 200.
\<close>

definition vendor_submit_lead ::
  "pylib \<Rightarrow> pystr \<Rightarrow> request \<Rightarrow> worksheet \<Rightarrow> response \<times> worksheet" where
  "vendor_submit_lead L now req ws =
     (case validate_lead L (req_body req) of
        Inl errs \<Rightarrow> (request_validation_handler errs, ws)
      | Inr body \<Rightarrow>
          (case submit_lead now body (x_api_key_param req) ws of
             (Inl e, ws') \<Rightarrow> (http_exception_handler e, ws')
           | (Inr d, ws') \<Rightarrow> (\<lparr>status = 200, content = Json d\<rparr>, ws')))"

text \<open>A response reports an error of a field: it is a 422 whose list has the entry.\<close>

definition reports :: "response \<Rightarrow> pystr \<Rightarrow> verr \<Rightarrow> bool" where
  "reports resp loc e =
     (status resp = 422
      \<and> (case content resp of ValidationErrors errs \<Rightarrow> (loc, e) \<in> set errs | Json j \<Rightarrow> False))"

text \<open>The member of a name in the JSON object that is the body of a response.\<close>

definition body_member :: "response \<Rightarrow> pystr \<Rightarrow> json option" where
  "body_member resp name =
     (case content resp of
        Json j \<Rightarrow> (case j of JObj members \<Rightarrow> map_of members name | _ \<Rightarrow> None)
      | ValidationErrors errs \<Rightarrow> None)"

section \<open>What the specification says, in its own words\<close>

text \<open>The canonical PAN: five capital letters, four decimal digits, one capital letter.\<close>

definition canonical_pan :: "pystr \<Rightarrow> bool" where
  "canonical_pan v =
     (length v = 10 \<and> list_all is_AZ (take 5 v) \<and> list_all is_09 (take 4 (drop 5 v))
      \<and> list_all is_AZ (drop 9 v))"

text \<open>A string of exactly \<open>n\<close> characters, all decimal digits.\<close>

definition decimal_digits :: "nat \<Rightarrow> pystr \<Rightarrow> bool" where
  "decimal_digits n v = (length v = n \<and> list_all is_09 v)"

section \<open>Sample requests\<close>

text \<open>
  An instance of the library parameters to run the model on: nothing is a digit from 256
  on, \<open>upper\<close> changes nothing there, an address needs an \<open>@\<close>, a date is ten
  characters with hyphens after the year and the month, and a datetime starts like a date.
  On the values of the samples below it answers as the libraries do.
\<close>

definition sample_lib :: pylib where
  "sample_lib =
     \<lparr>unicode_isdigit = (\<lambda>c. False),
      unicode_upper = (\<lambda>c. [c]),
      email_validator = (\<lambda>v. if 64 \<in> set v then Some v else None),
      strptime_Ymd = (\<lambda>v. length v = 10 \<and> v ! 4 = 45 \<and> v ! 7 = 45),
      fromisoformat = (\<lambda>v. 10 \<le> length v \<and> v ! 4 = 45 \<and> v ! 7 = 45)\<rparr>"

definition sample_now :: pystr where
  "sample_now = str ''2024-05-01T10:15:30.123456''"

definition sample_payload :: payload where
  "sample_payload =
     \<lparr>raw_phone = Some (str ''9876543210''),
      raw_email = Some (str ''asha@gmail.com''),
      raw_first_name = Some (str ''Asha''),
      raw_last_name = Some (str ''Rao''),
      raw_dob = Some (str ''1990-01-01''),
      raw_pan = Some (str ''abcde1234f''),
      raw_employment_type = Some (str ''salaried''),
      raw_pincode = Some (str ''110001''),
      raw_income = Some 50000,
      raw_consent_datetime = None,
      raw_ip_address = None,
      raw_partner_id = Some (str ''CM'')\<rparr>"

definition sample_lead :: Lead where
  "sample_lead =
     \<lparr>phone = str ''9876543210'',
      email = str ''asha@gmail.com'',
      first_name = str ''Asha'',
      last_name = str ''Rao'',
      dob = str ''1990-01-01'',
      pan = str ''ABCDE1234F'',
      employment_type = str ''salaried'',
      pincode = str ''110001'',
      income = 50000,
      consent_datetime = None,
      ip_address = None,
      partner_id = str ''CM''\<rparr>"

text \<open>The sample body with the registry's key in the header the handler reads.\<close>

definition sample_request :: request where
  "sample_request =
     \<lparr>req_headers = [(str ''x_api_key'', str ''YBJD1FRUY45THJ'')], req_body = sample_payload\<rparr>"

text \<open>The same body with no header at all, and with the key under \<open>X-Api-Key\<close>.\<close>

definition request_without_key :: request where
  "request_without_key = \<lparr>req_headers = [], req_body = sample_payload\<rparr>"


text \<open>The sample body with another partner, with a pincode of letters, with a phone of
  superscript twos, with a newline after the PAN, and with an empty consent\_datetime.\<close>

definition request_other_partner :: request where
  "request_other_partner =
     sample_request\<lparr>req_body := sample_payload\<lparr>raw_partner_id := Some (str ''XX'')\<rparr>\<rparr>"

definition request_pincode_letters :: request where
  "request_pincode_letters =
     sample_request\<lparr>req_body := sample_payload\<lparr>raw_pincode := Some (str ''abcdef'')\<rparr>\<rparr>"

definition request_phone_superscripts :: request where
  "request_phone_superscripts =
     sample_request\<lparr>req_body := sample_payload
       \<lparr>raw_phone := Some [178, 178, 178, 178, 178, 178, 178, 178, 178, 178]\<rparr>\<rparr>"

definition request_pan_newline :: request where
  "request_pan_newline =
     sample_request\<lparr>req_body := sample_payload\<lparr>raw_pan := Some (str ''abcde1234f'' @ [10])\<rparr>\<rparr>"

definition request_empty_consent :: request where
  "request_empty_consent =
     sample_request\<lparr>req_body := sample_payload\<lparr>raw_consent_datetime := Some []\<rparr>\<rparr>"

text \<open>A body with two failing fields: a phone of two characters and a pincode of five.\<close>

definition payload_two_errors :: payload where
  "payload_two_errors =
     sample_payload\<lparr>raw_phone := Some (str ''12''), raw_pincode := Some (str ''12345'')\<rparr>"

definition request_two_errors :: request where
  "request_two_errors = \<lparr>req_headers = [], req_body = payload_two_errors\<rparr>"

text \<open>A body in which every field that can fail does, and the errors the schema has for it.\<close>

definition payload_all_errors :: payload where
  "payload_all_errors =
     \<lparr>raw_phone = Some (str ''98765abcde''),
      raw_email = Some (str ''asha.gmail.com''),
      raw_first_name = None,
      raw_last_name = None,
      raw_dob = Some (str ''01/01/1990''),
      raw_pan = Some (str ''abcde12345''),
      raw_employment_type = Some (str ''retired''),
      raw_pincode = Some (str ''12345''),
      raw_income = None,
      raw_consent_datetime = Some (str ''yesterday''),
      raw_ip_address = None,
      raw_partner_id = None\<rparr>"

definition request_all_errors :: request where
  "request_all_errors = \<lparr>req_headers = [], req_body = payload_all_errors\<rparr>"

definition all_errors :: "(pystr \<times> verr) list" where
  "all_errors =
     [(str ''phone'', ValueError (str ''Phone number must be exactly 10 digits.'')),
      (str ''email'', NotAnEmail),
      (str ''first name'', Missing),
      (str ''last name'', Missing),
      (str ''dob'', ValueError (str ''dob must be YYYY-MM-DD.'')),
      (str ''pan'', ValueError (str ''Invalid PAN format.'')),
      (str ''employment_type'',
         ValueError (str ''employment_type must be salaried or self-employed.'')),
      (str ''pincode'', TooShort 6),
      (str ''income'', Missing),
      (str ''consent_datetime'', ValueError (str ''consent_datetime must be ISO-8601.'')),
      (str ''partner_id'', Missing)]"

text \<open>
  The sample body with a phone of two characters and a pincode of letters, and the sample
  body with a phone of superscript twos, a pincode of letters and a newline after the PAN.
\<close>

definition request_short_phone_pincode_letters :: request where
  "request_short_phone_pincode_letters =
     sample_request\<lparr>req_body := sample_payload
       \<lparr>raw_phone := Some (str ''12''), raw_pincode := Some (str ''abcdef'')\<rparr>\<rparr>"

definition request_three_violations :: request where
  "request_three_violations =
     sample_request\<lparr>req_body := sample_payload
       \<lparr>raw_phone := Some [178, 178, 178, 178, 178, 178, 178, 178, 178, 178],
        raw_pan := Some (str ''abcde1234f'' @ [10]),
        raw_pincode := Some (str ''abcdef'')\<rparr>\<rparr>"

text \<open>A worksheet that holds the header row.\<close>

definition sample_ws :: worksheet where
  "sample_ws = [map PStr HEADER_ROW]"

section \<open>Basic facts about the model\<close>

lemma sample_valid: "validate_lead sample_lib sample_payload = Inr sample_lead"
  by code_simp

lemma err_at_Inl: "err_at loc (Inl e) = [(loc, e)]"
  by (simp add: err_at_def)

lemma validate_lead_Inr: "validate_lead L p = Inr body \<Longrightarrow> field_errors L p = []"
  by (auto simp: validate_lead_def split: if_splits)

text \<open>The row, cell by cell: every name of \<open>HEADER_ROW\<close> is a key of the dictionary.\<close>

lemma build_row_eq:
  "build_row now body =
     [PStr now, PStr (phone body), PStr (email body), PStr (first_name body),
      PStr (last_name body), PStr (dob body), PStr (pan body), PStr (employment_type body),
      PStr (pincode body), PInt (income body), opt_val (consent_datetime body),
      opt_val (ip_address body), PStr (partner_id body)]"
  by (simp add: build_row_def HEADER_ROW_def dict_by_alias_def dict_get_def str_def)



text \<open>The two ways through the route: a body the schema refuses, and a valid one.\<close>

lemma vendor_submit_lead_invalid:
  "field_errors L (req_body req) \<noteq> [] \<Longrightarrow>
   vendor_submit_lead L now req ws =
     (request_validation_handler (field_errors L (req_body req)), ws)"
  by (simp add: vendor_submit_lead_def validate_lead_def)

lemma vendor_submit_lead_valid:
  "validate_lead L (req_body req) = Inr body \<Longrightarrow>
   vendor_submit_lead L now req ws =
     (if \<not> in_API_KEY_MAP (x_api_key_param req)
      then (http_exception_handler \<lparr>status_code = 401, detail = unauthorised_detail\<rparr>, ws)
      else if the (API_KEY_MAP (the (x_api_key_param req))) \<noteq> partner_id body
      then (http_exception_handler \<lparr>status_code = 400, detail = mismatch_detail\<rparr>, ws)
      else (\<lparr>status = 200, content = Json created\<rparr>, ws @ [build_row now body]))"
  by (simp add: vendor_submit_lead_def submit_lead_def append_row_def)

lemma reports_field_errors:
  "(loc, e) \<in> set (field_errors L (req_body req)) \<Longrightarrow>
   reports (fst (vendor_submit_lead L now req ws)) loc e
   \<and> snd (vendor_submit_lead L now req ws) = ws"
proof -
  assume a: "(loc, e) \<in> set (field_errors L (req_body req))"
  then have "field_errors L (req_body req) \<noteq> []" by auto
  then show ?thesis
    using a by (simp add: vendor_submit_lead_invalid reports_def request_validation_handler_def)
qed

section \<open>The persisted row\<close>

text \<open>
  C1. The row of an accepted request holds the server's timestamp and then the fields of
  the lead in the order of the header row, and the claim has the empty string in the
  column of an optional field that was left unset. On the sample request, which sets
  neither consent\_datetime nor ip\_address, the row is appended with the timestamp first
  and the fields in that order, but the two columns hold \<open>None\<close>: the dictionary of the
  model has both keys, so the default \<open>""\<close> of \<open>data.get(h, "")\<close> is never taken.
\<close>

theorem unset_optional_field_row_holds_None:
  "vendor_submit_lead sample_lib sample_now sample_request [] =
     (\<lparr>status = 200, content = Json created\<rparr>,
      [[PStr sample_now, PStr (str ''9876543210''), PStr (str ''asha@gmail.com''),
        PStr (str ''Asha''), PStr (str ''Rao''), PStr (str ''1990-01-01''),
        PStr (str ''ABCDE1234F''), PStr (str ''salaried''), PStr (str ''110001''),
        PInt 50000, PNone, PNone, PStr (str ''CM'')]])"
  by code_simp

section \<open>Authentication and the partner check\<close>

text \<open>
  C2, as the specification states it, fails: for the sample body sent without any key the
  body of the 401 is not the object with \<open>success\<close> and \<open>message\<close>.
\<close>

theorem unknown_key_body_counterexample:
  "validate_lead sample_lib (req_body request_without_key) = Inr sample_lead
   \<and> \<not> in_API_KEY_MAP (x_api_key_param request_without_key)
   \<and> content (fst (vendor_submit_lead sample_lib sample_now request_without_key []))
       \<noteq> Json (JObj [(str ''success'', JBool False),
                      (str ''message'', JStr (str ''Unauthorised Access! API Key is required!''))])"
  by code_simp

text \<open>
  C2, amended. For every request whose body passes the schema and whose API key is not in
  the registry (a missing key included), the response is a 401 whose body holds, under the
  key \<open>detail\<close>, the object with \<open>success\<close> false and the message
  \<open>Unauthorised Access! API Key is required!\<close>, and the worksheet is as it was.
\<close>

theorem unknown_key_unauthorised:
  "validate_lead L (req_body req) = Inr body \<Longrightarrow>
   \<not> in_API_KEY_MAP (x_api_key_param req) \<Longrightarrow>
   vendor_submit_lead L now req ws =
     (\<lparr>status = 401,
       content = Json (JObj [(str ''detail'',
         JObj [(str ''success'', JBool False),
               (str ''message'', JStr (str ''Unauthorised Access! API Key is required!''))])])\<rparr>,
      ws)"
  by (simp add: vendor_submit_lead_valid http_exception_handler_def unauthorised_detail_def)

text \<open>The sample body without a key is such a request.\<close>

theorem unknown_key_unauthorised_witness:
  "validate_lead sample_lib (req_body request_without_key) = Inr sample_lead
   \<and> \<not> in_API_KEY_MAP (x_api_key_param request_without_key)
   \<and> vendor_submit_lead sample_lib sample_now request_without_key [] =
     (\<lparr>status = 401,
       content = Json (JObj [(str ''detail'',
         JObj [(str ''success'', JBool False),
               (str ''message'', JStr (str ''Unauthorised Access! API Key is required!''))])])\<rparr>,
      [])"
proof -
  have h1: "validate_lead sample_lib (req_body request_without_key) = Inr sample_lead"
    by (simp add: request_without_key_def sample_valid)
  have h2: "\<not> in_API_KEY_MAP (x_api_key_param request_without_key)"
    by (simp add: in_API_KEY_MAP_def x_api_key_param_def header_get_def request_without_key_def)
  from unknown_key_unauthorised [OF h1 h2] h1 h2 show ?thesis by simp
qed

text \<open>
  C3, as the specification states it, fails: for the sample body under the partner \<open>XX\<close>
  sent with the key of \<open>CM\<close> the response is a 400, but its body has no member \<open>success\<close>,
  \<open>message\<close> or \<open>error\<close>, and is not the object of these three.
\<close>

theorem partner_mismatch_body_counterexample:
  "validate_lead sample_lib (req_body request_other_partner)
     = Inr (sample_lead\<lparr>partner_id := str ''XX''\<rparr>)
   \<and> x_api_key_param request_other_partner = Some (str ''YBJD1FRUY45THJ'')
   \<and> API_KEY_MAP (str ''YBJD1FRUY45THJ'') = Some (str ''CM'')
   \<and> status (fst (vendor_submit_lead sample_lib sample_now request_other_partner [])) = 400
   \<and> body_member (fst (vendor_submit_lead sample_lib sample_now request_other_partner []))
        (str ''success'') = None
   \<and> body_member (fst (vendor_submit_lead sample_lib sample_now request_other_partner []))
        (str ''message'') = None
   \<and> body_member (fst (vendor_submit_lead sample_lib sample_now request_other_partner []))
        (str ''error'') = None
   \<and> content (fst (vendor_submit_lead sample_lib sample_now request_other_partner []))
       \<noteq> Json (JObj [(str ''success'', JBool False),
                      (str ''message'', JStr (str ''Data Validation Failed!'')),
                      (str ''error'',
                         JObj [(str ''partner_id'',
                                JStr (str ''partner_id does not match supplied API key''))])])"
  by code_simp

text \<open>
  C3, amended. For every request whose body passes the schema and whose API key is in the
  registry, if the registry's partner for that key differs from the body's partner\_id, the
  response is a 400 whose body holds, under the key \<open>detail\<close>, the object with \<open>success\<close>
  false, the message \<open>Data Validation Failed!\<close> and an error object for \<open>partner_id\<close>, and
  the worksheet is as it was.
\<close>

theorem partner_mismatch_bad_request:
  "validate_lead L (req_body req) = Inr body \<Longrightarrow>
   x_api_key_param req = Some k \<Longrightarrow> API_KEY_MAP k = Some partner \<Longrightarrow>
   partner \<noteq> partner_id body \<Longrightarrow>
   vendor_submit_lead L now req ws =
     (\<lparr>status = 400,
       content = Json (JObj [(str ''detail'',
         JObj [(str ''success'', JBool False),
               (str ''message'', JStr (str ''Data Validation Failed!'')),
               (str ''error'',
                  JObj [(str ''partner_id'',
                         JStr (str ''partner_id does not match supplied API key''))])])])\<rparr>,
      ws)"
  by (simp add: vendor_submit_lead_valid http_exception_handler_def mismatch_detail_def
      in_API_KEY_MAP_def)

text \<open>The sample body under the partner \<open>XX\<close>, sent with the key of \<open>CM\<close>.\<close>

theorem partner_mismatch_bad_request_witness:
  "validate_lead sample_lib (req_body request_other_partner)
     = Inr (sample_lead\<lparr>partner_id := str ''XX''\<rparr>)
   \<and> x_api_key_param request_other_partner = Some (str ''YBJD1FRUY45THJ'')
   \<and> API_KEY_MAP (str ''YBJD1FRUY45THJ'') = Some (str ''CM'')
   \<and> str ''CM'' \<noteq> partner_id (sample_lead\<lparr>partner_id := str ''XX''\<rparr>)
   \<and> vendor_submit_lead sample_lib sample_now request_other_partner [] =
     (\<lparr>status = 400,
       content = Json (JObj [(str ''detail'',
         JObj [(str ''success'', JBool False),
               (str ''message'', JStr (str ''Data Validation Failed!'')),
               (str ''error'',
                  JObj [(str ''partner_id'',
                         JStr (str ''partner_id does not match supplied API key''))])])])\<rparr>,
      [])"
proof -
  have h1: "validate_lead sample_lib (req_body request_other_partner)
     = Inr (sample_lead\<lparr>partner_id := str ''XX''\<rparr>)"
    by code_simp
  have h2: "x_api_key_param request_other_partner = Some (str ''YBJD1FRUY45THJ'')"
    by code_simp
  have h3: "API_KEY_MAP (str ''YBJD1FRUY45THJ'') = Some (str ''CM'')"
    by (simp add: API_KEY_MAP_def)
  have h4: "str ''CM'' \<noteq> partner_id (sample_lead\<lparr>partner_id := str ''XX''\<rparr>)"
    by (simp add: str_def)
  from partner_mismatch_bad_request [OF h1 h2 h3 h4] h1 h2 h3 h4 show ?thesis by simp
qed

section \<open>The rules of the fields\<close>

text \<open>
  C4. A pincode that is not six decimal digits is to be rejected with an error of the
  pincode. The sample body with the pincode \<open>abcdef\<close>, six characters none of which is a
  digit, is accepted and its row appended: the schema checks the length of the pincode
  and has no validator for its digits, as it has one for the phone.
\<close>

theorem pincode_letters_accepted:
  "\<not> decimal_digits 6 (str ''abcdef'')
   \<and> vendor_submit_lead sample_lib sample_now request_pincode_letters [] =
     (\<lparr>status = 200, content = Json created\<rparr>,
      [[PStr sample_now, PStr (str ''9876543210''), PStr (str ''asha@gmail.com''),
        PStr (str ''Asha''), PStr (str ''Rao''), PStr (str ''1990-01-01''),
        PStr (str ''ABCDE1234F''), PStr (str ''salaried''), PStr (str ''abcdef''),
        PInt 50000, PNone, PNone, PStr (str ''CM'')]])"
  by code_simp

lemma pincode_field_Some:
  "pincode_field (Some v) =
     (if length v < 6 then Inl (TooShort 6) else if 6 < length v then Inl (TooLong 6) else Inr v)"
  by (simp add: pincode_field_def required_def and_then_def constr_length_def)

lemma pincode_error_in_field_errors:
  "pincode_field (raw_pincode p) = Inl e \<Longrightarrow> (str ''pincode'', e) \<in> set (field_errors L p)"
  by (simp add: field_errors_def err_at_Inl)

text \<open>The half of the claim about the length holds: a pincode that is not of six
  characters, such as \<open>12345\<close>, is rejected with an error of the pincode.\<close>

lemma pincode_wrong_length_rejected:
  assumes "length v \<noteq> 6" and "raw_pincode (req_body req) = Some v"
  shows "(\<exists>e. pincode_field (Some v) = Inl e
            \<and> reports (fst (vendor_submit_lead L now req ws)) (str ''pincode'') e)
         \<and> snd (vendor_submit_lead L now req ws) = ws"
proof -
  from assms have "\<exists>e. pincode_field (Some v) = Inl e"
    by (auto simp: pincode_field_Some)
  then obtain e where e: "pincode_field (Some v) = Inl e" ..
  with assms have "(str ''pincode'', e) \<in> set (field_errors L (req_body req))"
    by (simp add: pincode_error_in_field_errors)
  then have "reports (fst (vendor_submit_lead L now req ws)) (str ''pincode'') e
      \<and> snd (vendor_submit_lead L now req ws) = ws"
    by (rule reports_field_errors)
  with e show ?thesis by blast
qed

lemma pincode_12345_rejected:
  "raw_pincode (req_body request_two_errors) = Some (str ''12345'')
   \<and> reports (fst (vendor_submit_lead sample_lib sample_now request_two_errors sample_ws))
        (str ''pincode'') (TooShort 6)
   \<and> snd (vendor_submit_lead sample_lib sample_now request_two_errors sample_ws) = sample_ws"
  by code_simp

text \<open>
  C5. A PAN whose uppercased form is not the canonical pattern is to be rejected. The
  sample body with a newline after the PAN is accepted: \<open>$\<close> holds before the newline, and
  the row holds the uppercased PAN with its newline.
\<close>

theorem pan_trailing_newline_accepted:
  "\<not> canonical_pan (upper sample_lib (str ''abcde1234f'' @ [10]))
   \<and> pan_format sample_lib (str ''abcde1234f'' @ [10]) = Inr (str ''ABCDE1234F'' @ [10])
   \<and> vendor_submit_lead sample_lib sample_now request_pan_newline [] =
     (\<lparr>status = 200, content = Json created\<rparr>,
      [[PStr sample_now, PStr (str ''9876543210''), PStr (str ''asha@gmail.com''),
        PStr (str ''Asha''), PStr (str ''Rao''), PStr (str ''1990-01-01''),
        PStr (str ''ABCDE1234F'' @ [10]), PStr (str ''salaried''), PStr (str ''110001''),
        PInt 50000, PNone, PNone, PStr (str ''CM'')]])"
  by code_simp

text \<open>The other half holds: a value whose uppercased form is canonical is accepted, and
  what is kept is the uppercased form.\<close>

lemma canonical_pan_accepted:
  "canonical_pan (upper L v) \<Longrightarrow> pan_format L v = Inr (upper L v)"
  by (auto simp: canonical_pan_def pan_format_def PAN_REGEX_match_def)

text \<open>
  C7. A phone that is not ten decimal digits is to be rejected with an error of the phone.
  The sample body with a phone of ten superscript twos (U+00B2), none of them a decimal
  digit, is accepted and its row appended: \<open>phone_is_digits\<close> tests \<open>v.isdigit()\<close>, which
  holds of them.
\<close>

theorem phone_superscripts_accepted:
  "\<not> decimal_digits 10 [178, 178, 178, 178, 178, 178, 178, 178, 178, 178]
   \<and> vendor_submit_lead sample_lib sample_now request_phone_superscripts [] =
     (\<lparr>status = 200, content = Json created\<rparr>,
      [[PStr sample_now, PStr [178, 178, 178, 178, 178, 178, 178, 178, 178, 178],
        PStr (str ''asha@gmail.com''),
        PStr (str ''Asha''), PStr (str ''Rao''), PStr (str ''1990-01-01''),
        PStr (str ''ABCDE1234F''), PStr (str ''salaried''), PStr (str ''110001''),
        PInt 50000, PNone, PNone, PStr (str ''CM'')]])"
  by code_simp

lemma phone_field_Some:
  "phone_field L (Some v) =
     (if length v < 10 then Inl (TooShort 10)
      else if 10 < length v then Inl (TooLong 10)
      else if \<not> isdigit L v then Inl (ValueError (str ''Phone number must be exactly 10 digits.''))
      else Inr v)"
  by (simp add: phone_field_def required_def and_then_def constr_length_def phone_is_digits_def)

lemma phone_field_Inr_iff:
  "phone_field L (Some v) = Inr v \<longleftrightarrow> length v = 10 \<and> list_all (isdigit_cp L) v"
  by (auto simp: phone_field_Some isdigit_def)

lemma decimal_digits_isdigit_cp: "list_all is_09 v \<Longrightarrow> list_all (isdigit_cp L) v"
  by (induction v) (auto simp: is_09_def isdigit_cp_def)

lemma phone_error_in_field_errors:
  "phone_field L (raw_phone p) = Inl e \<Longrightarrow> (str ''phone'', e) \<in> set (field_errors L p)"
  by (simp add: field_errors_def err_at_Inl)

text \<open>The rest of the claim holds: every phone of exactly ten decimal digits passes the
  check of the phone, and a phone that is not of ten characters is rejected with an error
  of the phone.\<close>

lemma decimal_digits_phone_passes:
  "decimal_digits 10 v \<Longrightarrow> phone_field L (Some v) = Inr v"
  by (simp add: phone_field_Inr_iff decimal_digits_def decimal_digits_isdigit_cp)

lemma phone_wrong_length_rejected:
  assumes "length v \<noteq> 10" and "raw_phone (req_body req) = Some v"
  shows "(\<exists>e. phone_field L (Some v) = Inl e
            \<and> reports (fst (vendor_submit_lead L now req ws)) (str ''phone'') e)
         \<and> snd (vendor_submit_lead L now req ws) = ws"
proof -
  from assms have "\<exists>e. phone_field L (Some v) = Inl e"
    by (auto simp: phone_field_Some)
  then obtain e where e: "phone_field L (Some v) = Inl e" ..
  with assms have "(str ''phone'', e) \<in> set (field_errors L (req_body req))"
    by (simp add: phone_error_in_field_errors)
  then have "reports (fst (vendor_submit_lead L now req ws)) (str ''phone'') e
      \<and> snd (vendor_submit_lead L now req ws) = ws"
    by (rule reports_field_errors)
  with e show ?thesis by blast
qed

section \<open>The header of the API key\<close>






section \<open>All failing fields in one response\<close>

lemma field_error_memberships:
  "phone_field L (raw_phone p) = Inl e \<Longrightarrow> (str ''phone'', e) \<in> set (field_errors L p)"
  "email_field L (raw_email p) = Inl e \<Longrightarrow> (str ''email'', e) \<in> set (field_errors L p)"
  "required (raw_first_name p) = Inl e \<Longrightarrow> (str ''first name'', e) \<in> set (field_errors L p)"
  "required (raw_last_name p) = Inl e \<Longrightarrow> (str ''last name'', e) \<in> set (field_errors L p)"
  "dob_field L (raw_dob p) = Inl e \<Longrightarrow> (str ''dob'', e) \<in> set (field_errors L p)"
  "pan_field L (raw_pan p) = Inl e \<Longrightarrow> (str ''pan'', e) \<in> set (field_errors L p)"
  "employment_type_field (raw_employment_type p) = Inl e \<Longrightarrow>
     (str ''employment_type'', e) \<in> set (field_errors L p)"
  "pincode_field (raw_pincode p) = Inl e \<Longrightarrow> (str ''pincode'', e) \<in> set (field_errors L p)"
  "required (raw_income p) = Inl e \<Longrightarrow> (str ''income'', e) \<in> set (field_errors L p)"
  "consent_datetime_field L (raw_consent_datetime p) = Inl e \<Longrightarrow>
     (str ''consent_datetime'', e) \<in> set (field_errors L p)"
  "required (raw_partner_id p) = Inl e \<Longrightarrow> (str ''partner_id'', e) \<in> set (field_errors L p)"
  by (simp_all add: field_errors_def err_at_Inl)

lemma reports_fst:
  "(loc, e) \<in> set (field_errors L (req_body req)) \<Longrightarrow>
   vendor_submit_lead L now req ws = (resp, ws') \<Longrightarrow> reports resp loc e"
  using reports_field_errors [of loc e L req now ws] by simp

text \<open>
  C8. When two or more fields violate their rules, the validation failure response is to
  name every one of them. In the sample body with the phone \<open>12\<close> and the pincode
  \<open>abcdef\<close> both fields violate their rule of ten and of six decimal digits, and the 422
  names the phone alone; with a phone of ten superscript twos, the pincode \<open>abcdef\<close> and
  a newline after the PAN three fields violate their rules, and the request is accepted
  and its row appended. The fields are left out because the schema does not refuse them.
\<close>

theorem field_rule_violations_not_all_reported:
  "\<not> decimal_digits 10 (str ''12'') \<and> \<not> decimal_digits 6 (str ''abcdef'')
   \<and> vendor_submit_lead sample_lib sample_now request_short_phone_pincode_letters sample_ws =
       (\<lparr>status = 422, content = ValidationErrors [(str ''phone'', TooShort 10)]\<rparr>, sample_ws)
   \<and> \<not> decimal_digits 10 [178, 178, 178, 178, 178, 178, 178, 178, 178, 178]
   \<and> \<not> canonical_pan (upper sample_lib (str ''abcde1234f'' @ [10]))
   \<and> vendor_submit_lead sample_lib sample_now request_three_violations [] =
     (\<lparr>status = 200, content = Json created\<rparr>,
      [[PStr sample_now, PStr [178, 178, 178, 178, 178, 178, 178, 178, 178, 178], PStr (str ''asha@gmail.com''),
        PStr (str ''Asha''), PStr (str ''Rao''), PStr (str ''1990-01-01''),
        PStr (str ''ABCDE1234F'' @ [10]), PStr (str ''salaried''), PStr (str ''abcdef''),
        PInt 50000, PNone, PNone, PStr (str ''CM'')]])"
  by code_simp

text \<open>
  What the schema does refuse is all in the response: each field whose validation fails
  has its entry in the list of errors of the 422, under its name, whatever the other
  fields do.
\<close>

lemma schema_errors_all_reported:
  assumes run: "vendor_submit_lead L now req ws = (resp, ws')"
  shows
  "(\<forall>e. phone_field L (raw_phone (req_body req)) = Inl e \<longrightarrow> reports resp (str ''phone'') e)
   \<and> (\<forall>e. email_field L (raw_email (req_body req)) = Inl e \<longrightarrow> reports resp (str ''email'') e)
   \<and> (\<forall>e. required (raw_first_name (req_body req)) = Inl e \<longrightarrow>
          reports resp (str ''first name'') e)
   \<and> (\<forall>e. required (raw_last_name (req_body req)) = Inl e \<longrightarrow>
          reports resp (str ''last name'') e)
   \<and> (\<forall>e. dob_field L (raw_dob (req_body req)) = Inl e \<longrightarrow> reports resp (str ''dob'') e)
   \<and> (\<forall>e. pan_field L (raw_pan (req_body req)) = Inl e \<longrightarrow> reports resp (str ''pan'') e)
   \<and> (\<forall>e. employment_type_field (raw_employment_type (req_body req)) = Inl e \<longrightarrow>
          reports resp (str ''employment_type'') e)
   \<and> (\<forall>e. pincode_field (raw_pincode (req_body req)) = Inl e \<longrightarrow>
          reports resp (str ''pincode'') e)
   \<and> (\<forall>e. required (raw_income (req_body req)) = Inl e \<longrightarrow> reports resp (str ''income'') e)
   \<and> (\<forall>e. consent_datetime_field L (raw_consent_datetime (req_body req)) = Inl e \<longrightarrow>
          reports resp (str ''consent_datetime'') e)
   \<and> (\<forall>e. required (raw_partner_id (req_body req)) = Inl e \<longrightarrow>
          reports resp (str ''partner_id'') e)"
  using run by (intro conjI allI impI) (erule field_error_memberships [THEN reports_fst], assumption)+

text \<open>A body in which all eleven fields fail, each with its entry in the response.\<close>

lemma schema_errors_all_reported_example:
  "vendor_submit_lead sample_lib sample_now request_all_errors sample_ws
     = (request_validation_handler all_errors, sample_ws)
   \<and> phone_field sample_lib (raw_phone (req_body request_all_errors))
       = Inl (ValueError (str ''Phone number must be exactly 10 digits.''))
   \<and> reports (request_validation_handler all_errors) (str ''phone'')
       (ValueError (str ''Phone number must be exactly 10 digits.''))
   \<and> email_field sample_lib (raw_email (req_body request_all_errors)) = Inl NotAnEmail
   \<and> reports (request_validation_handler all_errors) (str ''email'') NotAnEmail
   \<and> required (raw_first_name (req_body request_all_errors)) = Inl Missing
   \<and> reports (request_validation_handler all_errors) (str ''first name'') Missing
   \<and> required (raw_last_name (req_body request_all_errors)) = Inl Missing
   \<and> reports (request_validation_handler all_errors) (str ''last name'') Missing
   \<and> dob_field sample_lib (raw_dob (req_body request_all_errors))
       = Inl (ValueError (str ''dob must be YYYY-MM-DD.''))
   \<and> reports (request_validation_handler all_errors) (str ''dob'')
       (ValueError (str ''dob must be YYYY-MM-DD.''))
   \<and> pan_field sample_lib (raw_pan (req_body request_all_errors))
       = Inl (ValueError (str ''Invalid PAN format.''))
   \<and> reports (request_validation_handler all_errors) (str ''pan'')
       (ValueError (str ''Invalid PAN format.''))
   \<and> employment_type_field (raw_employment_type (req_body request_all_errors))
       = Inl (ValueError (str ''employment_type must be salaried or self-employed.''))
   \<and> reports (request_validation_handler all_errors) (str ''employment_type'')
       (ValueError (str ''employment_type must be salaried or self-employed.''))
   \<and> pincode_field (raw_pincode (req_body request_all_errors)) = Inl (TooShort 6)
   \<and> reports (request_validation_handler all_errors) (str ''pincode'') (TooShort 6)
   \<and> required (raw_income (req_body request_all_errors)) = Inl Missing
   \<and> reports (request_validation_handler all_errors) (str ''income'') Missing
   \<and> consent_datetime_field sample_lib (raw_consent_datetime (req_body request_all_errors))
       = Inl (ValueError (str ''consent_datetime must be ISO-8601.''))
   \<and> reports (request_validation_handler all_errors) (str ''consent_datetime'')
       (ValueError (str ''consent_datetime must be ISO-8601.''))
   \<and> required (raw_partner_id (req_body request_all_errors)) = Inl Missing
   \<and> reports (request_validation_handler all_errors) (str ''partner_id'') Missing"
proof -
  have run: "vendor_submit_lead sample_lib sample_now request_all_errors sample_ws
     = (request_validation_handler all_errors, sample_ws)"
    by code_simp
  have f1: "phone_field sample_lib (raw_phone (req_body request_all_errors))
       = Inl (ValueError (str ''Phone number must be exactly 10 digits.''))"
    by code_simp
  have f2: "email_field sample_lib (raw_email (req_body request_all_errors)) = Inl NotAnEmail"
    by code_simp
  have f3: "required (raw_first_name (req_body request_all_errors)) = Inl Missing"
    by code_simp
  have f4: "required (raw_last_name (req_body request_all_errors)) = Inl Missing"
    by code_simp
  have f5: "dob_field sample_lib (raw_dob (req_body request_all_errors))
       = Inl (ValueError (str ''dob must be YYYY-MM-DD.''))"
    by code_simp
  have f6: "pan_field sample_lib (raw_pan (req_body request_all_errors))
       = Inl (ValueError (str ''Invalid PAN format.''))"
    by code_simp
  have f7: "employment_type_field (raw_employment_type (req_body request_all_errors))
       = Inl (ValueError (str ''employment_type must be salaried or self-employed.''))"
    by code_simp
  have f8: "pincode_field (raw_pincode (req_body request_all_errors)) = Inl (TooShort 6)"
    by code_simp
  have f9: "required (raw_income (req_body request_all_errors)) = Inl Missing"
    by code_simp
  have f10: "consent_datetime_field sample_lib (raw_consent_datetime (req_body request_all_errors))
       = Inl (ValueError (str ''consent_datetime must be ISO-8601.''))"
    by code_simp
  have f11: "required (raw_partner_id (req_body request_all_errors)) = Inl Missing"
    by code_simp
  from schema_errors_all_reported [OF run] f1 f2 f3 f4 f5 f6 f7 f8 f9 f10 f11 run
  show ?thesis by blast
qed

section \<open>The order of the checks and the append\<close>

lemma vendor_submit_lead_cases:
  assumes run: "vendor_submit_lead L now req ws = (resp, ws')"
  shows "(case validate_lead L (req_body req) of
            Inl errs \<Rightarrow> status resp = 422 \<and> ws' = ws
          | Inr body \<Rightarrow>
              if \<not> in_API_KEY_MAP (x_api_key_param req) then status resp = 401 \<and> ws' = ws
              else if the (API_KEY_MAP (the (x_api_key_param req))) \<noteq> partner_id body
              then status resp = 400 \<and> ws' = ws
              else status resp = 200 \<and> ws' = ws @ [build_row now body])"
proof (cases "validate_lead L (req_body req)")
  case (Inl errs)
  with run show ?thesis
    by (auto simp: vendor_submit_lead_def request_validation_handler_def)
next
  case (Inr body)
  from run vendor_submit_lead_valid [OF Inr, of now ws] Inr show ?thesis
    by (auto simp: http_exception_handler_def split: if_splits)
qed

text \<open>
  C9. For every request the checks run in this order: the schema first (422), then the API
  key (401), then the partner (400), then the append (200). Every response other than the
  200 leaves the worksheet as it was, and a 200 has appended exactly one row.
\<close>

theorem append_is_last_step:
  assumes run: "vendor_submit_lead L now req ws = (resp, ws')"
  shows "(case validate_lead L (req_body req) of
            Inl errs \<Rightarrow> status resp = 422 \<and> ws' = ws
          | Inr body \<Rightarrow>
              if \<not> in_API_KEY_MAP (x_api_key_param req) then status resp = 401 \<and> ws' = ws
              else if the (API_KEY_MAP (the (x_api_key_param req))) \<noteq> partner_id body
              then status resp = 400 \<and> ws' = ws
              else status resp = 200 \<and> ws' = ws @ [build_row now body])
         \<and> (status resp \<noteq> 200 \<longrightarrow> ws' = ws)
         \<and> (status resp = 200 \<longrightarrow> (\<exists>row. ws' = ws @ [row]))"
  using vendor_submit_lead_cases [OF run]
  by (auto split: sum.splits if_splits)

text \<open>The sample request appends its row to a worksheet that holds the header row; the
  requests without a key, with another partner and with an invalid body leave it alone.\<close>

theorem append_is_last_step_witness:
  "vendor_submit_lead sample_lib sample_now sample_request sample_ws
     = (\<lparr>status = 200, content = Json created\<rparr>, sample_ws @ [build_row sample_now sample_lead])
   \<and> status \<lparr>status = 200, content = Json created\<rparr> = 200
   \<and> (\<exists>row. sample_ws @ [build_row sample_now sample_lead] = sample_ws @ [row])
   \<and> vendor_submit_lead sample_lib sample_now request_without_key sample_ws
     = (http_exception_handler \<lparr>status_code = 401, detail = unauthorised_detail\<rparr>, sample_ws)
   \<and> status (http_exception_handler \<lparr>status_code = 401, detail = unauthorised_detail\<rparr>) \<noteq> 200
   \<and> vendor_submit_lead sample_lib sample_now request_other_partner sample_ws
     = (http_exception_handler \<lparr>status_code = 400, detail = mismatch_detail\<rparr>, sample_ws)
   \<and> vendor_submit_lead sample_lib sample_now request_all_errors sample_ws
     = (request_validation_handler all_errors, sample_ws)"
proof -
  have r1: "vendor_submit_lead sample_lib sample_now sample_request sample_ws
     = (\<lparr>status = 200, content = Json created\<rparr>, sample_ws @ [build_row sample_now sample_lead])"
    by code_simp
  have r2: "vendor_submit_lead sample_lib sample_now request_without_key sample_ws
     = (http_exception_handler \<lparr>status_code = 401, detail = unauthorised_detail\<rparr>, sample_ws)"
    by code_simp
  have r3: "vendor_submit_lead sample_lib sample_now request_other_partner sample_ws
     = (http_exception_handler \<lparr>status_code = 400, detail = mismatch_detail\<rparr>, sample_ws)"
    by code_simp
  have r4: "vendor_submit_lead sample_lib sample_now request_all_errors sample_ws
     = (request_validation_handler all_errors, sample_ws)"
    by code_simp
  have s1: "status \<lparr>status = 200, content = Json created\<rparr> = 200" by simp
  have s2: "status (http_exception_handler \<lparr>status_code = 401, detail = unauthorised_detail\<rparr>) \<noteq> 200"
    by (simp add: http_exception_handler_def)
  from append_is_last_step [OF r1] s1 have a: "\<exists>row. sample_ws @ [build_row sample_now sample_lead] = sample_ws @ [row]"
    by blast
  from append_is_last_step [OF r2] s2 have b: "sample_ws = sample_ws" by blast
  from r1 r2 r3 r4 s1 s2 a show ?thesis by blast
qed

section \<open>A falsy consent\_datetime\<close>

lemma consent_falsy: "x = None \<or> x = Some [] \<Longrightarrow> consent_datetime_field L x = Inr x"
  by (auto simp: consent_datetime_field_def iso_dt_def)

lemma validate_lead_consent:
  "validate_lead L p = Inr body \<Longrightarrow>
   consent_datetime body = projr (consent_datetime_field L (raw_consent_datetime p))"
  by (auto simp: validate_lead_def split: if_splits)

lemma validate_lead_replace_consent:
  assumes x: "consent_datetime_field L x = Inr x" and v: "validate_lead L p = Inr body"
  shows "validate_lead L (p\<lparr>raw_consent_datetime := x\<rparr>) = Inr (body\<lparr>consent_datetime := x\<rparr>)"
proof -
  from v have e: "field_errors L p = []" by (rule validate_lead_Inr)
  then have e': "field_errors L (p\<lparr>raw_consent_datetime := x\<rparr>) = []"
    using x by (simp add: field_errors_def err_at_def)
  from v e have "body = \<lparr>
        phone = projr (phone_field L (raw_phone p)),
        email = projr (email_field L (raw_email p)),
        first_name = projr (required (raw_first_name p)),
        last_name = projr (required (raw_last_name p)),
        dob = projr (dob_field L (raw_dob p)),
        pan = projr (pan_field L (raw_pan p)),
        employment_type = projr (employment_type_field (raw_employment_type p)),
        pincode = projr (pincode_field (raw_pincode p)),
        income = projr (required (raw_income p)),
        consent_datetime = projr (consent_datetime_field L (raw_consent_datetime p)),
        ip_address = raw_ip_address p,
        partner_id = projr (required (raw_partner_id p)) \<rparr>"
    by (simp add: validate_lead_def)
  with e' x show ?thesis by (simp add: validate_lead_def)
qed

text \<open>
  C10. A consent\_datetime that is \<open>None\<close> or the empty string passes its validator
  unchanged, whatever \<open>fromisoformat\<close> makes of the empty string: a valid payload stays
  valid when its consent\_datetime is replaced by such a value, and when the request is
  accepted the consent\_datetime column of the appended row, the one at index 10, holds
  the value as it is: \<open>None\<close> for \<open>None\<close> and the empty string for the empty string.
\<close>

theorem falsy_consent_datetime_as_is:
  assumes x: "x = None \<or> x = Some []"
  shows "consent_datetime_field L x = Inr x
    \<and> (validate_lead L p = Inr body \<longrightarrow>
         validate_lead L (p\<lparr>raw_consent_datetime := x\<rparr>) = Inr (body\<lparr>consent_datetime := x\<rparr>))
    \<and> HEADER_ROW ! 10 = str ''consent_datetime''
    \<and> (raw_consent_datetime (req_body req) = x
         \<and> vendor_submit_lead L now req ws = (resp, ws') \<and> status resp = 200 \<longrightarrow>
         (\<exists>row. ws' = ws @ [row] \<and> length row = 13
            \<and> row ! 10 = (case x of None \<Rightarrow> PNone | Some s \<Rightarrow> PStr s)))"
proof (intro conjI impI)
  from x show c: "consent_datetime_field L x = Inr x" by (rule consent_falsy)
  { assume "validate_lead L p = Inr body"
    with c show "validate_lead L (p\<lparr>raw_consent_datetime := x\<rparr>) = Inr (body\<lparr>consent_datetime := x\<rparr>)"
      by (rule validate_lead_replace_consent) }
  show "HEADER_ROW ! 10 = str ''consent_datetime''" by (simp add: HEADER_ROW_def)
  assume a: "raw_consent_datetime (req_body req) = x
         \<and> vendor_submit_lead L now req ws = (resp, ws') \<and> status resp = 200"
  then have run: "vendor_submit_lead L now req ws = (resp, ws')" by simp
  from vendor_submit_lead_cases [OF run] a
  obtain body where b: "validate_lead L (req_body req) = Inr body"
    and w: "ws' = ws @ [build_row now body]"
    by (auto split: sum.splits if_splits)
  from validate_lead_consent [OF b] a c have "consent_datetime body = x" by simp
  then have "length (build_row now body) = 13
      \<and> build_row now body ! 10 = (case x of None \<Rightarrow> PNone | Some s \<Rightarrow> PStr s)"
    by (simp add: build_row_eq opt_val_def)
  with w show "\<exists>row. ws' = ws @ [row] \<and> length row = 13
      \<and> row ! 10 = (case x of None \<Rightarrow> PNone | Some s \<Rightarrow> PStr s)" by blast
qed

text \<open>
  The sample body with an empty consent\_datetime is accepted, although the sample
  \<open>fromisoformat\<close> refuses the empty string, and the column holds the empty string; the
  sample body, which has no consent\_datetime, is accepted and the column holds \<open>None\<close>.
\<close>

theorem falsy_consent_datetime_as_is_witness:
  "\<not> fromisoformat sample_lib []
   \<and> consent_datetime_field sample_lib (Some []) = Inr (Some [])
   \<and> consent_datetime_field sample_lib None = Inr None
   \<and> validate_lead sample_lib sample_payload = Inr sample_lead
   \<and> validate_lead sample_lib (sample_payload\<lparr>raw_consent_datetime := Some []\<rparr>)
       = Inr (sample_lead\<lparr>consent_datetime := Some []\<rparr>)
   \<and> raw_consent_datetime (req_body request_empty_consent) = Some []
   \<and> vendor_submit_lead sample_lib sample_now request_empty_consent sample_ws
       = (\<lparr>status = 200, content = Json created\<rparr>,
          sample_ws @ [[PStr sample_now, PStr (str ''9876543210''), PStr (str ''asha@gmail.com''),
        PStr (str ''Asha''), PStr (str ''Rao''), PStr (str ''1990-01-01''),
        PStr (str ''ABCDE1234F''), PStr (str ''salaried''), PStr (str ''110001''),
        PInt 50000, PStr [], PNone, PStr (str ''CM'')]])
   \<and> (\<exists>row. sample_ws @ [[PStr sample_now, PStr (str ''9876543210''), PStr (str ''asha@gmail.com''),
        PStr (str ''Asha''), PStr (str ''Rao''), PStr (str ''1990-01-01''),
        PStr (str ''ABCDE1234F''), PStr (str ''salaried''), PStr (str ''110001''),
        PInt 50000, PStr [], PNone, PStr (str ''CM'')]]
          = sample_ws @ [row] \<and> length row = 13 \<and> row ! 10 = PStr [])
   \<and> raw_consent_datetime (req_body sample_request) = None
   \<and> vendor_submit_lead sample_lib sample_now sample_request sample_ws
       = (\<lparr>status = 200, content = Json created\<rparr>,
          sample_ws @ [[PStr sample_now, PStr (str ''9876543210''), PStr (str ''asha@gmail.com''),
        PStr (str ''Asha''), PStr (str ''Rao''), PStr (str ''1990-01-01''),
        PStr (str ''ABCDE1234F''), PStr (str ''salaried''), PStr (str ''110001''),
        PInt 50000, PNone, PNone, PStr (str ''CM'')]])
   \<and> (\<exists>row. sample_ws @ [[PStr sample_now, PStr (str ''9876543210''), PStr (str ''asha@gmail.com''),
        PStr (str ''Asha''), PStr (str ''Rao''), PStr (str ''1990-01-01''),
        PStr (str ''ABCDE1234F''), PStr (str ''salaried''), PStr (str ''110001''),
        PInt 50000, PNone, PNone, PStr (str ''CM'')]]
          = sample_ws @ [row] \<and> length row = 13 \<and> row ! 10 = PNone)"
proof -
  have x1: "Some [] = None \<or> Some [] = Some ([] :: pystr)" by simp
  have x2: "None = None \<or> None = Some ([] :: pystr)" by simp
  have f: "\<not> fromisoformat sample_lib []" by (simp add: sample_lib_def)
  have r1: "raw_consent_datetime (req_body request_empty_consent) = Some []"
    by (simp add: request_empty_consent_def)
  have r2: "raw_consent_datetime (req_body sample_request) = None"
    by (simp add: sample_request_def sample_payload_def)
  have run1: "vendor_submit_lead sample_lib sample_now request_empty_consent sample_ws
       = (\<lparr>status = 200, content = Json created\<rparr>,
          sample_ws @ [[PStr sample_now, PStr (str ''9876543210''), PStr (str ''asha@gmail.com''),
        PStr (str ''Asha''), PStr (str ''Rao''), PStr (str ''1990-01-01''),
        PStr (str ''ABCDE1234F''), PStr (str ''salaried''), PStr (str ''110001''),
        PInt 50000, PStr [], PNone, PStr (str ''CM'')]])"
    by code_simp
  have run2: "vendor_submit_lead sample_lib sample_now sample_request sample_ws
       = (\<lparr>status = 200, content = Json created\<rparr>,
          sample_ws @ [[PStr sample_now, PStr (str ''9876543210''), PStr (str ''asha@gmail.com''),
        PStr (str ''Asha''), PStr (str ''Rao''), PStr (str ''1990-01-01''),
        PStr (str ''ABCDE1234F''), PStr (str ''salaried''), PStr (str ''110001''),
        PInt 50000, PNone, PNone, PStr (str ''CM'')]])"
    by code_simp
  have s: "status \<lparr>status = 200, content = Json created\<rparr> = 200" by simp
  note t1 = falsy_consent_datetime_as_is [OF x1, of sample_lib sample_payload sample_lead
      request_empty_consent sample_now sample_ws "\<lparr>status = 200, content = Json created\<rparr>"
      "sample_ws @ [[PStr sample_now, PStr (str ''9876543210''), PStr (str ''asha@gmail.com''),
        PStr (str ''Asha''), PStr (str ''Rao''), PStr (str ''1990-01-01''),
        PStr (str ''ABCDE1234F''), PStr (str ''salaried''), PStr (str ''110001''),
        PInt 50000, PStr [], PNone, PStr (str ''CM'')]]"]
  note t2 = falsy_consent_datetime_as_is [OF x2, of sample_lib sample_payload sample_lead
      sample_request sample_now sample_ws "\<lparr>status = 200, content = Json created\<rparr>"
      "sample_ws @ [[PStr sample_now, PStr (str ''9876543210''), PStr (str ''asha@gmail.com''),
        PStr (str ''Asha''), PStr (str ''Rao''), PStr (str ''1990-01-01''),
        PStr (str ''ABCDE1234F''), PStr (str ''salaried''), PStr (str ''110001''),
        PInt 50000, PNone, PNone, PStr (str ''CM'')]]"]
  from t1 r1 run1 s sample_valid
  have a: "consent_datetime_field sample_lib (Some []) = Inr (Some [])
     \<and> validate_lead sample_lib (sample_payload\<lparr>raw_consent_datetime := Some []\<rparr>)
         = Inr (sample_lead\<lparr>consent_datetime := Some []\<rparr>)
     \<and> (\<exists>row. sample_ws @ [[PStr sample_now, PStr (str ''9876543210''), PStr (str ''asha@gmail.com''),
        PStr (str ''Asha''), PStr (str ''Rao''), PStr (str ''1990-01-01''),
        PStr (str ''ABCDE1234F''), PStr (str ''salaried''), PStr (str ''110001''),
        PInt 50000, PStr [], PNone, PStr (str ''CM'')]]
          = sample_ws @ [row] \<and> length row = 13 \<and> row ! 10 = PStr [])"
    by simp
  from t2 r2 run2 s
  have b: "consent_datetime_field sample_lib None = Inr None
     \<and> (\<exists>row. sample_ws @ [[PStr sample_now, PStr (str ''9876543210''), PStr (str ''asha@gmail.com''),
        PStr (str ''Asha''), PStr (str ''Rao''), PStr (str ''1990-01-01''),
        PStr (str ''ABCDE1234F''), PStr (str ''salaried''), PStr (str ''110001''),
        PInt 50000, PNone, PNone, PStr (str ''CM'')]]
          = sample_ws @ [row] \<and> length row = 13 \<and> row ! 10 = PNone)"
    by simp
  from a b f r1 r2 run1 run2 sample_valid show ?thesis by blast
qed

end
